theory Spec2Isabelle
  imports Main
begin

section \<open>Values, exceptions and the log\<close>

text \<open>
  The module \<^verbatim>\<open>deid/dicom/actions/jitter.py\<close> is dynamically typed. The values that
  reach it are modelled by two datatypes: a \<open>scalar\<close> is \<^verbatim>\<open>None\<close>, an \<^verbatim>\<open>int\<close> or a
  \<^verbatim>\<open>str\<close>; a \<open>pyval\<close> is a scalar, a plain \<^verbatim>\<open>list\<close> of scalars or a pydicom
  \<^verbatim>\<open>MultiValue\<close> of scalars. Integers are Python's unbounded ones. A \<open>char\<close> stands for
  a code point below 256. Floats, nested sequences and the other literal types are outside
  the model of the values of a field.
\<close>

datatype scalar = SNone | SInt int | SStr string

datatype pyval = Scalar scalar | PyList "scalar list" | MultiValue "scalar list"

text \<open>
  The argument \<^verbatim>\<open>value\<close> of \<^verbatim>\<open>jitter_timestamp\<close> (by the docstring, the number of days
  to jitter by) has a type of its own: an \<^verbatim>\<open>int\<close>, a \<^verbatim>\<open>str\<close>, a \<^verbatim>\<open>bytes\<close>, a
  \<^verbatim>\<open>float\<close> or \<^verbatim>\<open>None\<close>. A finite float is \<open>OFloat m e\<close>, the number \<open>m * 2 ^ e\<close>, as every
  finite binary float is; the range and precision of the machine format are not modelled.
  \<open>OFloatInf\<close> is either infinity and \<open>OFloatNaN\<close> is not-a-number.
\<close>

datatype offset = OInt int | OStr string | OBytes string | OFloat int int | OFloatInf | OFloatNaN
  | ONone

text \<open>
  Instances of Python's \<^verbatim>\<open>Exception\<close> class, by class. \<^verbatim>\<open>ast.literal_eval\<close> is documented
  to raise \<^verbatim>\<open>ValueError\<close>, \<^verbatim>\<open>TypeError\<close>, \<^verbatim>\<open>SyntaxError\<close>, \<^verbatim>\<open>MemoryError\<close> and
  \<^verbatim>\<open>RecursionError\<close>; \<^verbatim>\<open>int\<close> raises \<^verbatim>\<open>OverflowError\<close> on an infinite float;
  \<open>OtherException\<close> stands for every other subclass.
\<close>

datatype exn = ValueError | SyntaxError | TypeError | MemoryError | RecursionError | OverflowError
  | OtherException

text \<open>
  \<^verbatim>\<open>field.name\<close>, \<^verbatim>\<open>field.element.VR\<close> and \<^verbatim>\<open>field.element.value\<close>, the three
  attributes of the field that the module reads.
\<close>

record dicom_field =
  name :: string
  element_VR :: string
  element_value :: pyval

text \<open>
  The logger \<^verbatim>\<open>bot\<close> is modelled by the list of entries written during a call, oldest
  first. An entry is a severity and a message; a message is the template of the source's
  f-string together with the values it interpolates, in the order of the template.
\<close>

datatype level = DEBUG | INFO | WARNING | ERROR

datatype message =
    FailedToParseList string exn
  | ProcessingDates nat string
  | FailedMicroseconds scalar exn
  | FailedTimezone scalar exn
  | FailedFormat scalar string exn
  | UnexpectedErrorDate scalar string exn
  | NotSupportedValue scalar string string
  | ConvertedMultiValue string
  | ConvertingList string
  | CompletedJittering nat string
  | UnexpectedErrorSingle scalar string exn
  | NotSupportedField string scalar string
  | SkippingJitter string
  | JitterReturning pyval string

type_synonym log = "(level \<times> message) list"

text \<open>
  The two functions the module calls and does not define are parameters of the model:
  \<^verbatim>\<open>ast.literal_eval\<close> of the standard library, and \<^verbatim>\<open>get_timestamp\<close> of
  \<^verbatim>\<open>deid.utils\<close>, called as
  \<^verbatim>\<open>get_timestamp(item_date, jitter_days=value, format=fmt)\<close>. Each returns a value or
  raises.
\<close>

type_synonym literal_eval = "string \<Rightarrow> exn + pyval"

type_synonym get_timestamp = "scalar \<Rightarrow> int \<Rightarrow> string \<Rightarrow> exn + scalar"

section \<open>Python built-ins used by the module\<close>

text \<open>\<^verbatim>\<open>str(n)\<close> for a non-negative integer: its decimal digits.\<close>

fun str_nat :: "nat \<Rightarrow> string" where
  "str_nat n =
     (if n < 10 then [''0123456789'' ! n]
      else str_nat (n div 10) @ [''0123456789'' ! (n mod 10)])"

declare str_nat.simps [simp del]

definition str_int :: "int \<Rightarrow> string" where
  "str_int i = (if i < 0 then CHR ''-'' # str_nat (nat (- i)) else str_nat (nat i))"

text \<open>\<^verbatim>\<open>str(v)\<close>, as the join of line 158 and line 164 applies it to each element.\<close>

fun py_str :: "scalar \<Rightarrow> string" where
  "py_str SNone = ''None''"
| "py_str (SInt i) = str_int i"
| "py_str (SStr s) = s"

text \<open>Truthiness, as \<^verbatim>\<open>if single_jittered:\<close> and \<^verbatim>\<open>if not new_value:\<close> test it.\<close>

fun truthy :: "scalar \<Rightarrow> bool" where
  "truthy SNone = False"
| "truthy (SInt i) = (i \<noteq> 0)"
| "truthy (SStr s) = (s \<noteq> [])"

definition startswith :: "string \<Rightarrow> string \<Rightarrow> bool" where
  "startswith s p = (take (length p) s = p)"

definition endswith :: "string \<Rightarrow> string \<Rightarrow> bool" where
  "endswith s p = (length p \<le> length s \<and> drop (length s - length p) s = p)"

text \<open>\<^verbatim>\<open>sep.join(parts)\<close>.\<close>

fun py_join :: "string \<Rightarrow> string list \<Rightarrow> string" where
  "py_join sep [] = []"
| "py_join sep [x] = x"
| "py_join sep (x # y # ys) = x @ sep @ py_join sep (y # ys)"

text \<open>
  \<^verbatim>\<open>int(s)\<close> for a string, base 10: surrounding whitespace is dropped, one sign is
  allowed, then come decimal digits, where a single underscore may stand between two digits.
  Anything else raises \<^verbatim>\<open>ValueError\<close>. The whitespace characters below 256 that
  \<^verbatim>\<open>int\<close> drops are 9 to 13, 32, 133 and 160. The interpreter's limit on the number of
  digits is not modelled.
\<close>

definition int_space :: "char \<Rightarrow> bool" where
  "int_space c = (c \<in> set [CHR 0x09, CHR 0x0A, CHR 0x0B, CHR 0x0C, CHR 0x0D, CHR 0x20, CHR 0x85, CHR 0xA0])"

definition is_digit :: "char \<Rightarrow> bool" where
  "is_digit c = (c \<in> set ''0123456789'')"

definition digit_val :: "char \<Rightarrow> nat" where
  "digit_val c = of_char c - 48"

fun int_digits :: "string \<Rightarrow> nat \<Rightarrow> nat option" where
  "int_digits [] acc = Some acc"
| "int_digits (c # cs) acc =
     (if is_digit c then int_digits cs (10 * acc + digit_val c)
      else if c = CHR ''_'' \<and> cs \<noteq> [] \<and> is_digit (hd cs) then int_digits cs acc
      else None)"

definition int_unsigned :: "string \<Rightarrow> nat option" where
  "int_unsigned s = (if s \<noteq> [] \<and> is_digit (hd s) then int_digits s 0 else None)"

definition int_str :: "string \<Rightarrow> exn + int" where
  "int_str s =
     (let t = rev (dropWhile int_space (rev (dropWhile int_space s)));
          (neg, u) = (if t \<noteq> [] \<and> hd t = CHR ''-'' then (True, tl t)
                      else if t \<noteq> [] \<and> hd t = CHR ''+'' then (False, tl t)
                      else (False, t))
      in case int_unsigned u of
           None \<Rightarrow> Inl ValueError
         | Some n \<Rightarrow> Inr (if neg then - int n else int n))"

text \<open>
  \<^verbatim>\<open>int(b)\<close> for a \<^verbatim>\<open>bytes\<close>: as for a string, but the whitespace dropped is 9 to 13 and
  32 only.
\<close>

definition ascii_space :: "char \<Rightarrow> bool" where
  "ascii_space c = (c \<in> set [CHR 0x09, CHR 0x0A, CHR 0x0B, CHR 0x0C, CHR 0x0D, CHR 0x20])"

definition int_bytes :: "string \<Rightarrow> exn + int" where
  "int_bytes s =
     (let t = rev (dropWhile ascii_space (rev (dropWhile ascii_space s)));
          (neg, u) = (if t \<noteq> [] \<and> hd t = CHR ''-'' then (True, tl t)
                      else if t \<noteq> [] \<and> hd t = CHR ''+'' then (False, tl t)
                      else (False, t))
      in case int_unsigned u of
           None \<Rightarrow> Inl ValueError
         | Some n \<Rightarrow> Inr (if neg then - int n else int n))"

text \<open>\<^verbatim>\<open>int(x)\<close> for the finite float \<open>m * 2 ^ e\<close>: the fraction is cut off, towards zero.\<close>

definition int_float :: "int \<Rightarrow> int \<Rightarrow> int" where
  "int_float m e =
     (if 0 \<le> e then m * 2 ^ nat e
      else if 0 \<le> m then m div 2 ^ nat (- e)
      else - ((- m) div 2 ^ nat (- e)))"

text \<open>
  Lines 41 and 42, \<^verbatim>\<open>if not isinstance(value, int): value = int(value)\<close>: an integer stays,
  a string or a \<^verbatim>\<open>bytes\<close> is parsed, a finite float is cut to an integer; an infinite float
  raises \<^verbatim>\<open>OverflowError\<close>, not-a-number raises \<^verbatim>\<open>ValueError\<close>, and \<^verbatim>\<open>None\<close> raises
  \<^verbatim>\<open>TypeError\<close>.
\<close>

fun py_int :: "offset \<Rightarrow> exn + int" where
  "py_int (OInt i) = Inr i"
| "py_int (OStr s) = int_str s"
| "py_int (OBytes b) = int_bytes b"
| "py_int (OFloat m e) = Inr (int_float m e)"
| "py_int OFloatInf = Inl OverflowError"
| "py_int OFloatNaN = Inl ValueError"
| "py_int ONone = Inl TypeError"

section \<open>The option adapter: \<^verbatim>\<open>jitter_timestamp_func\<close>, lines 13 to 25\<close>

text \<open>
  \<^verbatim>\<open>parse_keyvalue_pairs\<close> (of \<^verbatim>\<open>deid.utils\<close>) returns the dictionary \<open>opts\<close>, from
  option names to their text; the model starts from that dictionary. Lines 20 to 24:
  \<^verbatim>\<open>value = int(opts.get("days", 1))\<close>, then, if \<^verbatim>\<open>"years" in opts\<close>,
  \<^verbatim>\<open>value = (int(opts["years"]) * 365) + value\<close>. Either \<^verbatim>\<open>int\<close> may raise, the one
  for \<^verbatim>\<open>days\<close> first.
\<close>

definition resolve_offset :: "(string \<rightharpoonup> string) \<Rightarrow> exn + int" where
  "resolve_offset opts =
     (case (case opts ''days'' of None \<Rightarrow> Inr 1 | Some d \<Rightarrow> int_str d) of
        Inl e \<Rightarrow> Inl e
      | Inr v \<Rightarrow>
          (case opts ''years'' of
             None \<Rightarrow> Inr v
           | Some y \<Rightarrow> (case int_str y of Inl e \<Rightarrow> Inl e | Inr k \<Rightarrow> Inr (k * 365 + v))))"

section \<open>The value jitter: \<^verbatim>\<open>jitter_timestamp\<close>, lines 28 to 246\<close>

definition separator :: string where
  "separator = [CHR 0x5C]"

definition fmt_date :: string where
  "fmt_date = ''%Y%m%d''"

definition fmt_seconds :: string where
  "fmt_seconds = ''%Y%m%d%H%M%S''"

definition fmt_micro :: string where
  "fmt_micro = ''%Y%m%d%H%M%S.%f''"

definition fmt_micro_tz :: string where
  "fmt_micro_tz = ''%Y%m%d%H%M%S.%f%z''"

text \<open>
  Lines 49 to 64: a \<^verbatim>\<open>str\<close> that starts with \<^verbatim>\<open>[\<close> and ends with \<^verbatim>\<open>]\<close> is given to
  \<^verbatim>\<open>ast.literal_eval\<close>, and \<open>original\<close> is rebound to the result. \<^verbatim>\<open>ValueError\<close> and
  \<^verbatim>\<open>SyntaxError\<close> are caught, with a warning, and \<open>original\<close> stays the string; any other
  exception leaves the function.
\<close>

definition bracketed :: "string \<Rightarrow> bool" where
  "bracketed s = (startswith s ''['' \<and> endswith s '']'')"

definition unwrap_literal :: "literal_eval \<Rightarrow> string \<Rightarrow> pyval \<Rightarrow> (exn + pyval) \<times> log" where
  "unwrap_literal le nm original =
     (case original of
        Scalar (SStr s) \<Rightarrow>
          (if bracketed s then
             (case le s of
                Inr v \<Rightarrow> (Inr v, [])
              | Inl e \<Rightarrow>
                  (if e = ValueError \<or> e = SyntaxError
                   then (Inr original, [(WARNING, FailedToParseList nm e)])
                   else (Inl e, [])))
           else (Inr original, []))
      | _ \<Rightarrow> (Inr original, []))"

text \<open>
  Lines 94 to 117 and, with \<open>original\<close> for \<open>single_date\<close>, lines 188 to 207: the nested
  \<^verbatim>\<open>try\<close> of the \<^verbatim>\<open>DT\<close> branch. The third call is in no \<^verbatim>\<open>try\<close> of its own, so its
  exception is the result here and is caught by the enclosing handler.
\<close>

definition datetime_cascade :: "get_timestamp \<Rightarrow> scalar \<Rightarrow> int \<Rightarrow> (exn + scalar) \<times> log" where
  "datetime_cascade gt x n =
     (case gt x n fmt_micro of
        Inr v \<Rightarrow> (Inr v, [])
      | Inl e \<Rightarrow>
          (case gt x n fmt_micro_tz of
             Inr v \<Rightarrow> (Inr v, [(WARNING, FailedMicroseconds x e)])
           | Inl e2 \<Rightarrow>
               (gt x n fmt_seconds,
                [(WARNING, FailedMicroseconds x e), (WARNING, FailedTimezone x e2)])))"

text \<open>
  Lines 121 to 136 and lines 212 to 227: the \<^verbatim>\<open>for fmtstr in [...]\<close> loop. The state is
  the variable assigned in the loop and the log; \<^verbatim>\<open>break\<close> ends the recursion.
\<close>

definition generic_formats :: "string list" where
  "generic_formats = [fmt_date, fmt_seconds, fmt_micro, fmt_micro_tz]"

fun try_formats :: "get_timestamp \<Rightarrow> scalar \<Rightarrow> int \<Rightarrow> string list \<Rightarrow> scalar \<times> log \<Rightarrow> scalar \<times> log" where
  "try_formats gt x n [] (v, lg) = (v, lg)"
| "try_formats gt x n (fmtstr # fs) (v, lg) =
     (case gt x n fmtstr of
        Inr w \<Rightarrow> (w, lg)
      | Inl e \<Rightarrow> try_formats gt x n fs (v, lg @ [(WARNING, FailedFormat x fmtstr e)]))"

text \<open>
  The body of the two outer \<^verbatim>\<open>try\<close> statements (lines 85 to 136 and 178 to 227): the
  branch on \<open>dcmvr\<close>. The variable assigned is \<^verbatim>\<open>None\<close> before the \<^verbatim>\<open>try\<close>.
\<close>

definition shift_by_vr :: "get_timestamp \<Rightarrow> string \<Rightarrow> scalar \<Rightarrow> int \<Rightarrow> (exn + scalar) \<times> log" where
  "shift_by_vr gt dcmvr x n =
     (if dcmvr = ''DA'' then (gt x n fmt_date, [])
      else if dcmvr = ''DT'' then datetime_cascade gt x n
      else (let (v, lg) = try_formats gt x n generic_formats (SNone, []) in (Inr v, lg)))"

text \<open>
  Lines 80 to 151, one round of the loop over the elements: the outer handler logs an error
  and resets \<open>single_jittered\<close>; a truthy result is appended, otherwise a warning is logged
  and \<open>single_date\<close> itself is appended. The result is the appended element and the entries
  logged.
\<close>

definition jitter_element :: "get_timestamp \<Rightarrow> string \<Rightarrow> string \<Rightarrow> int \<Rightarrow> scalar \<Rightarrow> scalar \<times> log" where
  "jitter_element gt nm dcmvr n single_date =
     (let (r, lg) = shift_by_vr gt dcmvr single_date n;
          (single_jittered, lg2) =
             (case r of
                Inr v \<Rightarrow> (v, lg)
              | Inl e \<Rightarrow> (SNone, lg @ [(ERROR, UnexpectedErrorDate single_date nm e)]))
      in if truthy single_jittered then (single_jittered, lg2)
         else (single_date, lg2 @ [(WARNING, NotSupportedValue single_date dcmvr nm)]))"

text \<open>Lines 78 to 151: the loop, with \<open>jittered_values\<close> and the log as its state.\<close>

fun jitter_loop :: "get_timestamp \<Rightarrow> string \<Rightarrow> string \<Rightarrow> int \<Rightarrow> scalar list \<Rightarrow> scalar list \<times> log \<Rightarrow> scalar list \<times> log" where
  "jitter_loop gt nm dcmvr n [] (jittered_values, lg) = (jittered_values, lg)"
| "jitter_loop gt nm dcmvr n (single_date # rest) (jittered_values, lg) =
     (let (v, l) = jitter_element gt nm dcmvr n single_date
      in jitter_loop gt nm dcmvr n rest (jittered_values @ [v], lg @ l))"

text \<open>
  Lines 73 to 169, the branch \<^verbatim>\<open>if is_multi_value\<close>. \<open>is_mv\<close> tells a \<^verbatim>\<open>MultiValue\<close>
  from a plain list; the two differ in one debug message only.
\<close>

definition jitter_multi :: "get_timestamp \<Rightarrow> string \<Rightarrow> string \<Rightarrow> int \<Rightarrow> bool \<Rightarrow> scalar list \<Rightarrow> scalar \<times> log" where
  "jitter_multi gt nm dcmvr n is_mv original =
     (let (jittered_values, lg) =
            jitter_loop gt nm dcmvr n original ([], [(INFO, ProcessingDates (length original) nm)]);
          new_value = py_join separator (map py_str jittered_values)
      in (SStr new_value,
          lg @ [(DEBUG, (if is_mv then ConvertedMultiValue new_value else ConvertingList new_value)),
                (DEBUG, CompletedJittering (length jittered_values) nm)]))"

text \<open>Lines 173 to 239, the branch for a single value.\<close>

definition jitter_single :: "get_timestamp \<Rightarrow> string \<Rightarrow> string \<Rightarrow> int \<Rightarrow> scalar \<Rightarrow> scalar \<times> log" where
  "jitter_single gt nm dcmvr n original =
     (let (r, lg) = shift_by_vr gt dcmvr original n;
          (new_value, lg2) =
             (case r of
                Inr v \<Rightarrow> (v, lg)
              | Inl e \<Rightarrow> (SNone, lg @ [(ERROR, UnexpectedErrorSingle original nm e)]))
      in if \<not> truthy new_value
         then (new_value, lg2 @ [(WARNING, NotSupportedField nm original dcmvr)])
         else (new_value, lg2))"

text \<open>
  The whole function. The result is what the call returns or raises, and the log it wrote.
  \<open>val\<close> is the argument \<^verbatim>\<open>value\<close>, converted by lines 41 and 42 before anything else.
\<close>

definition jitter_timestamp :: "literal_eval \<Rightarrow> get_timestamp \<Rightarrow> dicom_field \<Rightarrow> offset \<Rightarrow> (exn + pyval) \<times> log" where
  "jitter_timestamp le gt field val =
     (case py_int val of
        Inl e \<Rightarrow> (Inl e, [])
      | Inr n \<Rightarrow>
          (let original = element_value field in
           if original \<noteq> Scalar SNone then
             (case unwrap_literal le (name field) original of
                (Inl e, lg) \<Rightarrow> (Inl e, lg)
              | (Inr original', lg) \<Rightarrow>
                  (let (new_value, lg2) =
                         (case original' of
                            MultiValue xs \<Rightarrow> jitter_multi gt (name field) (element_VR field) n True xs
                          | PyList xs \<Rightarrow> jitter_multi gt (name field) (element_VR field) n False xs
                          | Scalar x \<Rightarrow> jitter_single gt (name field) (element_VR field) n x)
                   in (Inr (Scalar new_value),
                       lg @ lg2 @ [(DEBUG, JitterReturning (Scalar new_value) (name field))])))
           else (Inr original,
                 [(DEBUG, SkippingJitter (name field)),
                  (DEBUG, JitterReturning original (name field))])))"

text \<open>Lines 13 to 25, from the parsed options on.\<close>

definition jitter_timestamp_func :: "literal_eval \<Rightarrow> get_timestamp \<Rightarrow> (string \<rightharpoonup> string) \<Rightarrow> dicom_field \<Rightarrow> (exn + pyval) \<times> log" where
  "jitter_timestamp_func le gt opts field =
     (case resolve_offset opts of
        Inl e \<Rightarrow> (Inl e, [])
      | Inr v \<Rightarrow> jitter_timestamp le gt field (OInt v))"

section \<open>A shift primitive for concrete runs\<close>

text \<open>
  Modelled from the spec: \<^verbatim>\<open>get_timestamp\<close> of \<^verbatim>\<open>deid.utils\<close>, which is not under
  \<^verbatim>\<open>src/\<close>. The spec describes it as the primitive
  \<^verbatim>\<open>shift(raw_string, jitter_days, format_pattern)\<close> that parses the raw value with one
  pattern, signals a mismatch instead of guessing, moves the calendar date by the given
  number of days, and renders the result in the same pattern; its examples are
  \<^verbatim>\<open>20200101\<close> shifted by 10 and by -10, and \<^verbatim>\<open>20200101120000.000000\<close> shifted by 1.
  The model reads fixed-width fields (four digits for the year, two for each other number,
  one to six for the fraction, a sign and four digits for the zone), checks them against the
  Gregorian calendar, and moves the date one day at a time. The raw value is read through its
  text, so that the elements of a parsed list literal can be shifted. It is used to run the
  theorems below on concrete inputs, not to state them.
\<close>

datatype directive = Year | Month | Day | Hour | Minute | Second | Fraction | Zone | Literal char

fun directive_of :: "char \<Rightarrow> directive option" where
  "directive_of c =
     (if c = CHR ''Y'' then Some Year else if c = CHR ''m'' then Some Month
      else if c = CHR ''d'' then Some Day else if c = CHR ''H'' then Some Hour
      else if c = CHR ''M'' then Some Minute else if c = CHR ''S'' then Some Second
      else if c = CHR ''f'' then Some Fraction else if c = CHR ''z'' then Some Zone
      else None)"

fun directives :: "string \<Rightarrow> directive list option" where
  "directives [] = Some []"
| "directives [c] = (if c = CHR ''%'' then None else Some [Literal c])"
| "directives (c # d # ds) =
     (if c = CHR ''%'' then
        (case directive_of d of
           None \<Rightarrow> None
         | Some x \<Rightarrow> map_option (Cons x) (directives ds))
      else map_option (Cons (Literal c)) (directives (d # ds)))"

record stamp =
  year :: nat
  month :: nat
  day :: nat
  hour :: nat
  minute :: nat
  second :: nat
  fraction :: string
  zone :: string

definition stamp0 :: stamp where
  "stamp0 = \<lparr>year = 1900, month = 1, day = 1, hour = 0, minute = 0, second = 0,
             fraction = [], zone = []\<rparr>"

definition number :: "nat \<Rightarrow> string \<Rightarrow> (nat \<times> string) option" where
  "number k s =
     (if k \<le> length s \<and> list_all is_digit (take k s)
      then map_option (\<lambda>v. (v, drop k s)) (int_digits (take k s) 0) else None)"

fun match :: "directive list \<Rightarrow> string \<Rightarrow> stamp \<Rightarrow> stamp option" where
  "match [] s st = (if s = [] then Some st else None)"
| "match (Year # ds) s st =
     (case number 4 s of None \<Rightarrow> None | Some (v, r) \<Rightarrow> match ds r (st\<lparr>year := v\<rparr>))"
| "match (Month # ds) s st =
     (case number 2 s of None \<Rightarrow> None | Some (v, r) \<Rightarrow> match ds r (st\<lparr>month := v\<rparr>))"
| "match (Day # ds) s st =
     (case number 2 s of None \<Rightarrow> None | Some (v, r) \<Rightarrow> match ds r (st\<lparr>day := v\<rparr>))"
| "match (Hour # ds) s st =
     (case number 2 s of None \<Rightarrow> None | Some (v, r) \<Rightarrow> match ds r (st\<lparr>hour := v\<rparr>))"
| "match (Minute # ds) s st =
     (case number 2 s of None \<Rightarrow> None | Some (v, r) \<Rightarrow> match ds r (st\<lparr>minute := v\<rparr>))"
| "match (Second # ds) s st =
     (case number 2 s of None \<Rightarrow> None | Some (v, r) \<Rightarrow> match ds r (st\<lparr>second := v\<rparr>))"
| "match (Fraction # ds) s st =
     (let f = takeWhile is_digit (take 6 s)
      in if f = [] then None else match ds (drop (length f) s) (st\<lparr>fraction := f\<rparr>))"
| "match (Zone # ds) s st =
     (if 5 \<le> length s \<and> (hd s = CHR ''+'' \<or> hd s = CHR ''-'') \<and> list_all is_digit (take 4 (tl s))
      then match ds (drop 5 s) (st\<lparr>zone := take 5 s\<rparr>) else None)"
| "match (Literal c # ds) s st =
     (case s of [] \<Rightarrow> None | x # r \<Rightarrow> if x = c then match ds r st else None)"

definition leap :: "nat \<Rightarrow> bool" where
  "leap y = (y mod 4 = 0 \<and> (y mod 100 \<noteq> 0 \<or> y mod 400 = 0))"

definition days_in_month :: "nat \<Rightarrow> nat \<Rightarrow> nat" where
  "days_in_month y m =
     (if m = 2 then (if leap y then 29 else 28)
      else if m = 4 \<or> m = 6 \<or> m = 9 \<or> m = 11 then 30 else 31)"

definition valid_stamp :: "stamp \<Rightarrow> bool" where
  "valid_stamp st =
     (1 \<le> year st \<and> 1 \<le> month st \<and> month st \<le> 12 \<and> 1 \<le> day st
      \<and> day st \<le> days_in_month (year st) (month st)
      \<and> hour st < 24 \<and> minute st < 60 \<and> second st < 60)"

text \<open>The day after and the day before a date; no date lies outside the years 1 to 9999.\<close>

definition next_day :: "nat \<times> nat \<times> nat \<Rightarrow> (nat \<times> nat \<times> nat) option" where
  "next_day ymd =
     (case ymd of (y, m, d) \<Rightarrow>
        if d < days_in_month y m then Some (y, m, d + 1)
        else if m < 12 then Some (y, m + 1, 1)
        else if y < 9999 then Some (y + 1, 1, 1) else None)"

definition prev_day :: "nat \<times> nat \<times> nat \<Rightarrow> (nat \<times> nat \<times> nat) option" where
  "prev_day ymd =
     (case ymd of (y, m, d) \<Rightarrow>
        if 1 < d then Some (y, m, d - 1)
        else if 1 < m then Some (y, m - 1, days_in_month y (m - 1))
        else if 1 < y then Some (y - 1, 12, 31) else None)"

fun repeat :: "nat \<Rightarrow> ('a \<Rightarrow> 'a option) \<Rightarrow> 'a \<Rightarrow> 'a option" where
  "repeat k f x =
     (if k = 0 then Some x
      else (case f x of None \<Rightarrow> None | Some y \<Rightarrow> repeat (k - 1) f y))"

declare repeat.simps [simp del]

definition move_days :: "int \<Rightarrow> nat \<times> nat \<times> nat \<Rightarrow> (nat \<times> nat \<times> nat) option" where
  "move_days n ymd = (if 0 \<le> n then repeat (nat n) next_day ymd else repeat (nat (- n)) prev_day ymd)"

definition pad :: "nat \<Rightarrow> nat \<Rightarrow> string" where
  "pad k v = replicate (k - length (str_nat v)) CHR ''0'' @ str_nat v"

fun render :: "directive \<Rightarrow> stamp \<Rightarrow> string" where
  "render Year st = pad 4 (year st)"
| "render Month st = pad 2 (month st)"
| "render Day st = pad 2 (day st)"
| "render Hour st = pad 2 (hour st)"
| "render Minute st = pad 2 (minute st)"
| "render Second st = pad 2 (second st)"
| "render Fraction st = fraction st"
| "render Zone st = zone st"
| "render (Literal c) st = [c]"

text \<open>
  Modelled from the spec: the primitive \<^verbatim>\<open>shift(raw_string, jitter_days, format_pattern)\<close>
  of sections 2 and 6, standing for \<^verbatim>\<open>get_timestamp\<close> of \<^verbatim>\<open>deid.utils\<close>, which is not
  under \<^verbatim>\<open>src/\<close>. A pattern that does not match, or digits that are no date or time,
  are a \<^verbatim>\<open>ValueError\<close>; a date that leaves the years 1 to 9999 is another exception.
\<close>

definition shift :: get_timestamp where
  "shift raw jitter_days pattern =
     (case directives pattern of
        None \<Rightarrow> Inl ValueError
      | Some ds \<Rightarrow>
          (case match ds (py_str raw) stamp0 of
             None \<Rightarrow> Inl ValueError
           | Some st \<Rightarrow>
               if \<not> valid_stamp st then Inl ValueError
               else (case move_days jitter_days (year st, month st, day st) of
                       None \<Rightarrow> Inl OtherException
                     | Some (y, m, d) \<Rightarrow>
                         Inr (SStr (concat (map (\<lambda>x. render x (st\<lparr>year := y, month := m, day := d\<rparr>)) ds))))))"




text \<open>
  A table of \<^verbatim>\<open>ast.literal_eval\<close> for concrete runs: what the standard library returns
  or raises on the strings evaluated below. A list of integer literals is a list of
  \<^verbatim>\<open>int\<close>; a set display that holds a list raises \<^verbatim>\<open>TypeError\<close> (unhashable type); a
  bare name raises \<^verbatim>\<open>ValueError\<close> (malformed node); a decimal literal with a leading zero
  raises \<^verbatim>\<open>SyntaxError\<close>. The table answers \<^verbatim>\<open>SyntaxError\<close> elsewhere, and nothing
  below evaluates it elsewhere.
\<close>

definition literal_eval_table :: literal_eval where
  "literal_eval_table s =
     (if s = ''[20200101, 20200103]'' then Inr (PyList [SInt 20200101, SInt 20200103])
      else if s = ''[]'' then Inr (PyList [])
      else if s = ''[{[]}]'' then Inl TypeError
      else if s = ''[tomorrow]'' then Inl ValueError
      else Inl SyntaxError)"

text \<open>A primitive that returns the empty string, whatever it is given.\<close>

definition empty_shift :: get_timestamp where
  "empty_shift raw jitter_days pattern = Inr (SStr [])"

section \<open>The single-value shift procedure in the spec's words\<close>

text \<open>
  Section 4.2, step 4 of the spec: the candidate patterns are selected by the tag, one
  pattern for \<^verbatim>\<open>DATE\<close>, three for \<^verbatim>\<open>DATETIME\<close>, four for any other tag; the result is
  that of the first candidate the primitive accepts, and \<^verbatim>\<open>FAIL\<close> (here \<open>None\<close>) when it
  accepts none.
\<close>

definition spec_candidates :: "string \<Rightarrow> string list" where
  "spec_candidates vr =
     (if vr = ''DA'' then [''%Y%m%d'']
      else if vr = ''DT'' then [''%Y%m%d%H%M%S.%f'', ''%Y%m%d%H%M%S.%f%z'', ''%Y%m%d%H%M%S'']
      else [''%Y%m%d'', ''%Y%m%d%H%M%S'', ''%Y%m%d%H%M%S.%f'', ''%Y%m%d%H%M%S.%f%z''])"

definition spec_first_match :: "get_timestamp \<Rightarrow> scalar \<Rightarrow> int \<Rightarrow> string list \<Rightarrow> scalar option" where
  "spec_first_match gt raw n patterns =
     map_option (\<lambda>p. projr (gt raw n p)) (find (\<lambda>p. \<not> isl (gt raw n p)) patterns)"

definition spec_misses :: "get_timestamp \<Rightarrow> scalar \<Rightarrow> int \<Rightarrow> string list \<Rightarrow> string list" where
  "spec_misses gt raw n patterns = takeWhile (\<lambda>p. isl (gt raw n p)) patterns"

definition spec_shift_one :: "get_timestamp \<Rightarrow> scalar \<Rightarrow> int \<Rightarrow> string \<Rightarrow> scalar option" where
  "spec_shift_one gt raw n vr = spec_first_match gt raw n (spec_candidates vr)"

text \<open>
  Section 4.2, step 3, collection path: the element of the output at an index is the shifted
  element, or the original element when the shift failed or gave a falsy result.
\<close>

definition spec_element :: "get_timestamp \<Rightarrow> string \<Rightarrow> int \<Rightarrow> scalar \<Rightarrow> scalar" where
  "spec_element gt vr n raw =
     (case spec_shift_one gt raw n vr of
        None \<Rightarrow> raw
      | Some v \<Rightarrow> if truthy v then v else raw)"

text \<open>The entries of a log that name a field as unsupported (the message of line 237).\<close>

fun is_not_supported :: "level \<times> message \<Rightarrow> bool" where
  "is_not_supported (l, NotSupportedField nm x vr) = True"
| "is_not_supported (l, m) = False"

section \<open>Properties\<close>

subsection \<open>The loops\<close>

text \<open>
  The first match and the misses, pattern by pattern: a pattern the primitive accepts ends the
  search, a pattern it refuses is a miss and the search goes on.
\<close>

lemma spec_first_match_unfold:
  "spec_first_match gt x n [] = None"
  "spec_first_match gt x n (p # ps) =
     (case gt x n p of Inr v \<Rightarrow> Some v | Inl e \<Rightarrow> spec_first_match gt x n ps)"
  by (simp_all add: spec_first_match_def split: sum.splits)

lemma spec_misses_unfold:
  "spec_misses gt x n [] = []"
  "spec_misses gt x n (p # ps) =
     (case gt x n p of Inr v \<Rightarrow> [] | Inl e \<Rightarrow> p # spec_misses gt x n ps)"
  by (simp_all add: spec_misses_def split: sum.splits)

text \<open>
  The loop over the patterns returns the result of the first pattern that the primitive
  accepts, and logs one warning for each pattern refused before it.
\<close>

lemma try_formats_char:
  "try_formats gt x n fs (v, lg) =
     (case spec_first_match gt x n fs of None \<Rightarrow> v | Some w \<Rightarrow> w,
      lg @ map (\<lambda>p. (WARNING, FailedFormat x p (projl (gt x n p)))) (spec_misses gt x n fs))"
proof (induction fs arbitrary: lg)
  case Nil
  show ?case by (simp add: spec_first_match_def spec_misses_def)
next
  case (Cons f fs)
  show ?case
  proof (cases "gt x n f")
    case (Inl e)
    then show ?thesis
      using Cons.IH [of "lg @ [(WARNING, FailedFormat x f e)]"]
      by (simp add: spec_first_match_def spec_misses_def)
  next
    case (Inr w)
    then show ?thesis by (simp add: spec_first_match_def spec_misses_def)
  qed
qed

text \<open>The loop over the elements appends one element for each element, in order.\<close>

lemma jitter_loop_map:
  "jitter_loop gt nm vr n xs (jv, lg) =
     (jv @ map (\<lambda>x. fst (jitter_element gt nm vr n x)) xs,
      lg @ concat (map (\<lambda>x. snd (jitter_element gt nm vr n x)) xs))"
  by (induction xs arbitrary: jv lg) (simp_all add: case_prod_beta Let_def)

text \<open>
  The branch on the tag computes the single-value shift procedure of the spec, once the
  exception of a failed cascade is replaced by \<^verbatim>\<open>None\<close> as the two handlers do.
\<close>

lemma shift_by_vr_spec:
  "(case fst (shift_by_vr gt vr x n) of Inr v \<Rightarrow> v | Inl e \<Rightarrow> SNone) =
     (case spec_shift_one gt x n vr of None \<Rightarrow> SNone | Some v \<Rightarrow> v)"
  by (auto simp: shift_by_vr_def spec_shift_one_def spec_candidates_def datetime_cascade_def
        try_formats_char generic_formats_def fmt_date_def fmt_seconds_def fmt_micro_def fmt_micro_tz_def
        spec_first_match_def split: sum.splits)

lemma jitter_element_spec:
  "fst (jitter_element gt nm vr n x) = spec_element gt vr n x"
  using shift_by_vr_spec [of gt vr x n]
  by (auto simp: jitter_element_def spec_element_def case_prod_beta Let_def split: sum.splits option.splits)

text \<open>A value that is not a bracketed string passes lines 49 to 64 unchanged.\<close>

lemma unwrap_literal_plain:
  "(\<forall>s. original = Scalar (SStr s) \<longrightarrow> \<not> bracketed s) \<Longrightarrow> unwrap_literal le nm original = (Inr original, [])"
  by (auto simp: unwrap_literal_def split: pyval.splits scalar.splits)

text \<open>\<^verbatim>\<open>int\<close> of a string raises nothing but \<^verbatim>\<open>ValueError\<close>.\<close>

lemma int_str_error: "int_str s = Inl e \<Longrightarrow> e = ValueError"
  by (auto simp: int_str_def Let_def split: option.splits prod.splits if_splits)

subsection \<open>Integers and their text\<close>

text \<open>
  \<^verbatim>\<open>int(str(i))\<close> is \<open>i\<close>: the text of an integer is a sign and digits, and \<^verbatim>\<open>int\<close> reads
  it back.
\<close>

lemma digit_char:
  assumes "n < 10"
  shows "is_digit (''0123456789'' ! n) \<and> digit_val (''0123456789'' ! n) = n"
proof -
  from assms have "n \<in> {0, 1, 2, 3, 4, 5, 6, 7, 8, 9}" by auto
  then show ?thesis
    by (auto simp: is_digit_def digit_val_def)
qed

lemma is_digit_not_space: "is_digit c \<Longrightarrow> \<not> int_space c \<and> c \<noteq> CHR ''-'' \<and> c \<noteq> CHR ''+''"
  by (auto simp: is_digit_def int_space_def)

lemma str_nat_digits: "str_nat n \<noteq> [] \<and> list_all is_digit (str_nat n)"
proof (induction n rule: str_nat.induct)
  case (1 n)
  show ?case
  proof (cases "n < 10")
    case True
    then show ?thesis by (subst (1 2) str_nat.simps) (simp add: digit_char)
  next
    case False
    have "n mod 10 < 10" by simp
    with False 1 show ?thesis
      by (subst (1 2) str_nat.simps) (simp add: digit_char)
  qed
qed

lemma int_digits_snoc:
  "list_all is_digit xs \<Longrightarrow> is_digit c \<Longrightarrow>
   int_digits (xs @ [c]) acc = map_option (\<lambda>v. 10 * v + digit_val c) (int_digits xs acc)"
  by (induction xs arbitrary: acc) simp_all

lemma int_digits_str_nat: "int_digits (str_nat n) 0 = Some n"
proof (induction n rule: str_nat.induct)
  case (1 n)
  show ?case
  proof (cases "n < 10")
    case True
    then show ?thesis by (subst str_nat.simps) (simp add: digit_char)
  next
    case False
    have "n mod 10 < 10" by simp
    with False 1 show ?thesis
      by (subst str_nat.simps) (simp add: int_digits_snoc str_nat_digits digit_char)
  qed
qed

lemma strip_digits:
  assumes "xs \<noteq> []" "\<not> int_space (hd xs)" "\<not> int_space (last xs)"
  shows "rev (dropWhile int_space (rev (dropWhile int_space xs))) = xs"
proof -
  from assms have a: "dropWhile int_space xs = xs"
    by (cases xs) simp_all
  from assms have "dropWhile int_space (rev xs) = rev xs"
    by (cases "rev xs") (simp_all add: hd_rev)
  with a show ?thesis by simp
qed

lemma int_str_str_int: "int_str (str_int i) = Inr i"
proof -
  have d: "str_nat n \<noteq> []" "is_digit (hd (str_nat n))" "is_digit (last (str_nat n))" for n
    using str_nat_digits [of n] by (auto simp: list_all_iff)
  have u: "int_unsigned (str_nat n) = Some n" for n
    using d [of n] by (simp add: int_unsigned_def int_digits_str_nat)
  show ?thesis
  proof (cases "i < 0")
    case True
    let ?t = "CHR ''-'' # str_nat (nat (- i))"
    have "rev (dropWhile int_space (rev (dropWhile int_space ?t))) = ?t"
      using d [of "nat (- i)"] is_digit_not_space
      by (intro strip_digits) (simp_all add: int_space_def)
    with True show ?thesis
      by (simp add: str_int_def int_str_def u)
  next
    case False
    let ?t = "str_nat (nat i)"
    have "rev (dropWhile int_space (rev (dropWhile int_space ?t))) = ?t"
      using d [of "nat i"] is_digit_not_space by (intro strip_digits) simp_all
    with False d [of "nat i"] is_digit_not_space [of "hd ?t"] show ?thesis
      by (simp add: str_int_def int_str_def u)
  qed
qed

text \<open>
  The join of line 158 and line 164, without the function that models it: the first text,
  then each further text after a backslash.
\<close>

lemma py_join_backslash:
  "py_join separator ts =
     (case ts of [] \<Rightarrow> [] | t # us \<Rightarrow> t @ concat (map (\<lambda>u. CHR 0x5C # u) us))"
proof (cases ts)
  case Nil
  then show ?thesis by simp
next
  case (Cons t us)
  have "py_join separator (t # us) = t @ concat (map (\<lambda>u. CHR 0x5C # u) us)"
    by (induction us arbitrary: t) (simp_all add: separator_def)
  with Cons show ?thesis by simp
qed

text \<open>The branch on the tag never logs the warning of line 237.\<close>

lemma shift_by_vr_log: "filter is_not_supported (snd (shift_by_vr gt vr x n)) = []"
  by (auto simp: shift_by_vr_def datetime_cascade_def try_formats_char generic_formats_def
        comp_def split: sum.splits)

text \<open>
  With an offset that converts, and a \<^verbatim>\<open>literal_eval\<close> that raises nothing but
  \<^verbatim>\<open>ValueError\<close> and \<^verbatim>\<open>SyntaxError\<close>, the call returns: every other statement that may
  raise is inside a handler for \<^verbatim>\<open>Exception\<close>.
\<close>

lemma jitter_timestamp_returns:
  "py_int val = Inr n \<Longrightarrow> \<forall>s e. le s = Inl e \<longrightarrow> e = ValueError \<or> e = SyntaxError \<Longrightarrow>
   \<exists>v lg. jitter_timestamp le gt f val = (Inr v, lg)"
  by (auto simp: jitter_timestamp_def unwrap_literal_def case_prod_beta Let_def
        split: pyval.splits scalar.splits sum.splits)

subsection \<open>Running the shift primitive\<close>

text \<open>
  Equations that let the simplifier run \<open>str_nat\<close> and \<open>repeat\<close> on numerals, and the
  definitions it unfolds to run \<open>shift\<close>.
\<close>

lemma str_nat_numeral:
  "str_nat (numeral k) =
     (if (numeral k :: nat) < 10 then [''0123456789'' ! numeral k]
      else str_nat (numeral k div 10) @ [''0123456789'' ! (numeral k mod 10)])"
  by (rule str_nat.simps)

lemma str_nat_small: "str_nat 0 = ''0''" "str_nat 1 = ''1''" "str_nat (Suc 0) = ''1''"
  "str_nat (Suc (Suc 0)) = ''2''"
  by (simp_all add: str_nat.simps)

lemma replicate_one: "replicate 1 c = [c]"
  by simp

lemma repeat_numeral:
  "repeat (numeral k) f x =
     (case f x of None \<Rightarrow> None | Some y \<Rightarrow> repeat (numeral k - 1) f y)"
  by (subst repeat.simps) simp

lemma repeat_small:
  "repeat 0 f x = Some x"
  "repeat 1 f x = f x"
  "repeat (Suc 0) f x = f x"
  by (simp_all add: repeat.simps split: option.splits)

lemmas shift_eval = shift_def fmt_date_def fmt_seconds_def fmt_micro_def fmt_micro_tz_def
  number_def is_digit_def digit_val_def stamp0_def valid_stamp_def days_in_month_def leap_def
  move_days_def next_day_def prev_day_def pad_def str_int_def str_nat_numeral str_nat_small
  repeat_numeral repeat_small replicate_one

text \<open>
  The primitive on the examples of section 8 of the spec, on the string of claim C5 under each
  of the three patterns for \<^verbatim>\<open>DT\<close>, and on the two integers of the list literal of
  claim C6.
\<close>

lemma shift_examples:
  "shift (SStr ''20200101'') 10 fmt_date = Inr (SStr ''20200111'')"
  "shift (SStr ''20200101'') (- 10) fmt_date = Inr (SStr ''20191222'')"
  "shift (SStr ''20200101120000.000000'') 1 fmt_micro = Inr (SStr ''20200102120000.000000'')"
  "shift (SStr ''20200101120000'') 1 fmt_micro = Inl ValueError"
  "shift (SStr ''20200101120000'') 1 fmt_micro_tz = Inl ValueError"
  "shift (SStr ''20200101120000'') 1 fmt_seconds = Inr (SStr ''20200102120000'')"
  "shift (SInt 20200101) 1 fmt_date = Inr (SStr ''20200102'')"
  "shift (SInt 20200103) 1 fmt_date = Inr (SStr ''20200104'')"
  by (simp_all add: shift_eval del: One_nat_def)

text \<open>The primitive on further inputs of the runs below.\<close>

lemma shift_not_a_date: "shift (SStr ''not-a-date'') 5 fmt_date = Inl ValueError"
  "shift (SStr ''20200101'') 5 fmt_date = Inr (SStr ''20200106'')"
  "shift (SStr ''20200103'') 5 fmt_date = Inr (SStr ''20200108'')"
  by (simp_all add: shift_eval del: One_nat_def)


lemma shift_unparseable: "shift (SStr ''not-a-date'') 1 fmt_date = Inl ValueError"
  by (simp add: shift_eval del: One_nat_def)

text \<open>The primitive with an offset of two days, and the lenient primitive on the string of claim C5.\<close>

lemma shift_two_days: "shift (SStr ''20200101'') 2 fmt_date = Inr (SStr ''20200103'')"
  by (simp add: shift_eval del: One_nat_def)


subsection \<open>The claims\<close>

text \<open>
  Claim C1 as stated fails on an empty collection: the check of line 47 is
  \<^verbatim>\<open>original is not None\<close>, so the empty list takes the multi-value branch. The call
  returns the empty string, which is not the list it was given, and writes an entry at info
  level.
\<close>

theorem C1_counterexample:
  "jitter_timestamp literal_eval_table shift
     \<lparr>name = ''AcquisitionDate'', element_VR = ''DA'', element_value = PyList []\<rparr> (OInt 1)
   = (Inr (Scalar (SStr [])),
      [(INFO, ProcessingDates 0 ''AcquisitionDate''),
       (DEBUG, ConvertingList []),
       (DEBUG, CompletedJittering 0 ''AcquisitionDate''),
       (DEBUG, JitterReturning (Scalar (SStr [])) ''AcquisitionDate'')])"
  by (simp add: jitter_timestamp_def unwrap_literal_def jitter_multi_def)

text \<open>
  Claim C1, amended: when the value of the field is \<^verbatim>\<open>None\<close>, the call returns
  \<^verbatim>\<open>None\<close> and writes two entries, both at debug level. The empty collection and the
  empty string are not short-circuited. An empty collection gives the empty string, with one
  entry at info level and three at debug level. An empty string takes the single-value branch,
  and when the call returns the empty string again it has logged the warning of line 237.
\<close>

theorem C1_null_value:
  "py_int val = Inr n \<Longrightarrow>
   (element_value f = Scalar SNone \<longrightarrow>
      jitter_timestamp le gt f val =
        (Inr (Scalar SNone),
         [(DEBUG, SkippingJitter (name f)), (DEBUG, JitterReturning (Scalar SNone) (name f))]))
   \<and> (element_value f = PyList [] \<or> element_value f = MultiValue [] \<longrightarrow>
        fst (jitter_timestamp le gt f val) = Inr (Scalar (SStr []))
        \<and> map fst (snd (jitter_timestamp le gt f val)) = [INFO, DEBUG, DEBUG, DEBUG])
   \<and> (element_value f = Scalar (SStr []) \<longrightarrow>
        fst (jitter_timestamp le gt f val) = Inr (Scalar (SStr [])) \<longrightarrow>
        (WARNING, NotSupportedField (name f) (SStr []) (element_VR f)) \<in> set (snd (jitter_timestamp le gt f val)))"
  by (auto simp: jitter_timestamp_def unwrap_literal_def jitter_multi_def jitter_single_def
        bracketed_def startswith_def case_prod_beta Let_def split: sum.splits)

text \<open>
  The runs of claim C1, amended: a field that holds \<^verbatim>\<open>None\<close>, a field that holds an empty
  \<^verbatim>\<open>MultiValue\<close>, and a field that holds the empty string, the last with the primitive
  that returns the empty string.
\<close>

theorem C1_null_value_witness:
  "jitter_timestamp literal_eval_table shift
     \<lparr>name = ''StudyDate'', element_VR = ''DA'', element_value = Scalar SNone\<rparr> (OInt 1)
   = (Inr (Scalar SNone),
      [(DEBUG, SkippingJitter ''StudyDate''), (DEBUG, JitterReturning (Scalar SNone) ''StudyDate'')])
   \<and> fst (jitter_timestamp literal_eval_table shift
     \<lparr>name = ''StudyDate'', element_VR = ''DA'', element_value = MultiValue []\<rparr> (OInt 1))
     = Inr (Scalar (SStr []))
   \<and> (WARNING, NotSupportedField ''StudyDate'' (SStr []) ''DA'')
       \<in> set (snd (jitter_timestamp literal_eval_table empty_shift
            \<lparr>name = ''StudyDate'', element_VR = ''DA'', element_value = Scalar (SStr [])\<rparr>
            (OInt 1)))"
proof -
  have e: "py_int (OInt 1) = Inr 1" by simp
  let ?g = "\<lparr>name = ''StudyDate'', element_VR = ''DA'', element_value = Scalar (SStr [])\<rparr>"
  have r: "fst (jitter_timestamp literal_eval_table empty_shift ?g (OInt 1))
             = Inr (Scalar (SStr []))"
    by (simp add: jitter_timestamp_def unwrap_literal_def bracketed_def startswith_def
          jitter_single_def shift_by_vr_def empty_shift_def Let_def)
  show ?thesis
    using C1_null_value [OF e, of
        "\<lparr>name = ''StudyDate'', element_VR = ''DA'', element_value = Scalar SNone\<rparr>"
        literal_eval_table shift]
      C1_null_value [OF e, of
        "\<lparr>name = ''StudyDate'', element_VR = ''DA'', element_value = MultiValue []\<rparr>"
        literal_eval_table shift]
      C1_null_value [OF e, of ?g literal_eval_table empty_shift] r
    by simp
qed

text \<open>
  Claim C2 as stated fails when the text of \<^verbatim>\<open>days\<close> is not an integer: line 20 has no
  handler, and \<^verbatim>\<open>int("abc")\<close> raises \<^verbatim>\<open>ValueError\<close>.
\<close>

theorem C2_counterexample:
  "resolve_offset [''days'' \<mapsto> ''abc''] = Inl ValueError"
  by (simp add: resolve_offset_def int_str_def int_unsigned_def is_digit_def int_space_def)

text \<open>
  Claim C2, amended: when the text of \<^verbatim>\<open>days\<close> (if the key is present) parses to the
  integer \<open>d\<close>, with \<open>d = 1\<close> for an absent key, and the text of \<^verbatim>\<open>years\<close> (if present)
  parses to \<open>y\<close>, with \<open>y = 0\<close> standing for an absent key, the offset is \<open>y * 365 + d\<close> and
  \<^verbatim>\<open>jitter_timestamp_func\<close> is \<^verbatim>\<open>jitter_timestamp\<close> at that offset. When the text of a
  present \<^verbatim>\<open>days\<close> or \<^verbatim>\<open>years\<close> does not parse, the call raises \<^verbatim>\<open>ValueError\<close> and
  logs nothing. In particular, for the decimal texts of any two integers \<open>i\<close> and \<open>k\<close> the
  offset is \<open>k * 365 + i\<close>, it is \<open>i\<close> without \<^verbatim>\<open>years\<close>, and 1 for the empty dictionary.
\<close>

theorem C2_resolve_offset:
  "((case opts ''days'' of None \<Rightarrow> d = 1 | Some sd \<Rightarrow> int_str sd = Inr d)
      \<and> (case opts ''years'' of None \<Rightarrow> y = 0 | Some sy \<Rightarrow> int_str sy = Inr y)
     \<longrightarrow> resolve_offset opts = Inr (y * 365 + d)
         \<and> jitter_timestamp_func le gt opts f = jitter_timestamp le gt f (OInt (y * 365 + d)))
   \<and> ((\<exists>s e. (opts ''days'' = Some s \<or> opts ''years'' = Some s) \<and> int_str s = Inl e)
     \<longrightarrow> resolve_offset opts = Inl ValueError
         \<and> jitter_timestamp_func le gt opts f = (Inl ValueError, []))
   \<and> resolve_offset [''days'' \<mapsto> str_int i, ''years'' \<mapsto> str_int k] = Inr (k * 365 + i)
   \<and> resolve_offset [''days'' \<mapsto> str_int i] = Inr i
   \<and> resolve_offset Map.empty = Inr 1"
  by (auto simp: resolve_offset_def jitter_timestamp_func_def int_str_str_int
        split: option.splits sum.splits dest: int_str_error)

text \<open>
  The run of claim C2, amended, on three dictionaries: \<^verbatim>\<open>days=10 years=-1\<close>,
  \<^verbatim>\<open>years=2\<close>, and \<^verbatim>\<open>days=7 years=1.5\<close>, which raises.
\<close>

theorem C2_resolve_offset_witness:
  "resolve_offset [''days'' \<mapsto> ''10'', ''years'' \<mapsto> ''-1''] = Inr (- 355)
   \<and> resolve_offset [''years'' \<mapsto> ''2''] = Inr 731
   \<and> resolve_offset [''days'' \<mapsto> ''7'', ''years'' \<mapsto> ''1.5''] = Inl ValueError"
proof -
  have a: "int_str ''10'' = Inr 10" "int_str ''-1'' = Inr (- 1)" "int_str ''2'' = Inr 2"
    "int_str ''1.5'' = Inl ValueError"
    by (simp_all add: int_str_def int_unsigned_def is_digit_def int_space_def digit_val_def)
  have "resolve_offset [''days'' \<mapsto> ''10'', ''years'' \<mapsto> ''-1''] = Inr (- 355)"
    using C2_resolve_offset [where opts = "[''days'' \<mapsto> ''10'', ''years'' \<mapsto> ''-1'']" and d = 10 and y = "- 1"]
    by (simp add: a)
  moreover have "resolve_offset [''years'' \<mapsto> ''2''] = Inr 731"
    using C2_resolve_offset [where opts = "[''years'' \<mapsto> ''2'']" and d = 1 and y = 2]
    by (simp add: a)
  moreover have "\<exists>s e. (''7'' = s \<or> ''1.5'' = s) \<and> int_str s = Inl e"
    using a(4) by blast
  then have "resolve_offset [''days'' \<mapsto> ''7'', ''years'' \<mapsto> ''1.5''] = Inl ValueError"
    using C2_resolve_offset [where opts = "[''days'' \<mapsto> ''7'', ''years'' \<mapsto> ''1.5'']"]
    by simp
  ultimately show ?thesis by simp
qed

text \<open>
  Claim C3 (the call never raises for an integer offset) against the source: the handler of
  line 59 catches \<^verbatim>\<open>ValueError\<close> and \<^verbatim>\<open>SyntaxError\<close> only. For the field value
  \<^verbatim>\<open>[{[]}]\<close>, \<^verbatim>\<open>ast.literal_eval\<close> raises \<^verbatim>\<open>TypeError\<close>, and the call raises it to
  its caller, before anything is logged.
\<close>

theorem C3_type_error_escapes:
  "jitter_timestamp literal_eval_table shift
     \<lparr>name = ''StudyDate'', element_VR = ''DA'', element_value = Scalar (SStr ''[{[]}]'')\<rparr>
     (OInt 1)
   = (Inl TypeError, [])"
  by (simp add: jitter_timestamp_def unwrap_literal_def bracketed_def startswith_def endswith_def
        literal_eval_table_def)

text \<open>
  Claim C4: for a field whose value is a list or a \<^verbatim>\<open>MultiValue\<close> \<open>xs\<close>, the call returns
  one string: the text of the first element of \<open>ys\<close>, then the text of each further element
  after a backslash (the character 0x5C), and the empty string when there is no element.
  The list \<open>ys\<close> is as long as \<open>xs\<close>; the element of \<open>ys\<close> at an index is the shift of the
  element of \<open>xs\<close> at that index, with the one offset \<open>n\<close>, or that element of \<open>xs\<close> itself
  when its shift failed or gave a falsy result. So an element depends on no other element,
  and none is dropped or replaced by \<^verbatim>\<open>None\<close>. The text of an element that is a string is
  the string.
\<close>

theorem C4_collection:
  "py_int val = Inr n \<Longrightarrow> element_value f = PyList xs \<or> element_value f = MultiValue xs \<Longrightarrow>
   ys = map (spec_element gt (element_VR f) n) xs \<Longrightarrow>
   fst (jitter_timestamp le gt f val) =
     Inr (Scalar (SStr (case map py_str ys of
                          [] \<Rightarrow> []
                        | t # ts \<Rightarrow> t @ concat (map (\<lambda>u. CHR 0x5C # u) ts))))
   \<and> length ys = length xs
   \<and> (\<forall>i<length xs. ys ! i =
          (case spec_shift_one gt (xs ! i) n (element_VR f) of
             None \<Rightarrow> xs ! i
           | Some v \<Rightarrow> if truthy v then v else xs ! i))"
  by (auto simp: jitter_timestamp_def unwrap_literal_def jitter_multi_def jitter_loop_map
        jitter_element_spec spec_element_def case_prod_beta Let_def comp_def py_join_backslash)

text \<open>
  The run of claim C4 on a \<^verbatim>\<open>MultiValue\<close> of three strings with \<^verbatim>\<open>DA\<close> and the offset
  5, with the shift primitive above: the second string is no date and stays where it is, the
  first and the third are shifted, and a backslash stands between them.
\<close>

theorem C4_collection_witness:
  "fst (jitter_timestamp literal_eval_table shift
     \<lparr>name = ''AcquisitionDate'', element_VR = ''DA'',
      element_value = MultiValue [SStr ''20200101'', SStr ''not-a-date'', SStr ''20200103'']\<rparr>
     (OInt 5))
   = Inr (Scalar (SStr (''20200106'' @ [CHR 0x5C] @ ''not-a-date'' @ [CHR 0x5C] @ ''20200108'')))"
proof -
  let ?xs = "[SStr ''20200101'', SStr ''not-a-date'', SStr ''20200103'']"
  let ?f = "\<lparr>name = ''AcquisitionDate'', element_VR = ''DA'', element_value = MultiValue ?xs\<rparr>"
  have e: "py_int (OInt 5) = Inr 5" by simp
  have p: "element_value ?f = PyList ?xs \<or> element_value ?f = MultiValue ?xs" by simp
  have c: "map (spec_element shift (element_VR ?f) 5) ?xs
             = [SStr ''20200106'', SStr ''not-a-date'', SStr ''20200108'']"
    using shift_not_a_date
    by (simp add: spec_element_def spec_shift_one_def spec_candidates_def
          spec_first_match_def fmt_date_def)
  show ?thesis
    using C4_collection [of "OInt 5" 5 ?f ?xs _ shift literal_eval_table, OF e p c [symmetric]]
    by simp
qed




text \<open>
  Claim C6: when the value is a string that starts with \<^verbatim>\<open>[\<close> and ends with \<^verbatim>\<open>]\<close>
  and \<^verbatim>\<open>ast.literal_eval\<close> returns the list \<open>xs\<close> for it, the call does what it does for
  the field that holds \<open>xs\<close>: the same result and the same log. The result is the text of the
  first shifted element, then the text of each further one after a backslash (the character
  0x5C), an element that cannot be shifted standing as it is. For the string
  \<^verbatim>\<open>[20200101, 20200103]\<close>, which \<^verbatim>\<open>ast.literal_eval\<close> turns into two integers, with
  \<^verbatim>\<open>DA\<close> and the offset 1, the result is \<^verbatim>\<open>20200102\<close>, a backslash and \<^verbatim>\<open>20200104\<close>,
  the primitive shifting each integer by one day.
\<close>

theorem C6_literal_list:
  assumes "py_int val = Inr n" and "element_value f = Scalar (SStr s)" and "bracketed s"
    and "le s = Inr (PyList xs)"
  shows
  "jitter_timestamp le gt f val = jitter_timestamp le gt (f\<lparr>element_value := PyList xs\<rparr>) val
   \<and> fst (jitter_timestamp le gt f val) =
       Inr (Scalar (SStr (case map (\<lambda>x. py_str (spec_element gt (element_VR f) n x)) xs of
                            [] \<Rightarrow> []
                          | t # ts \<Rightarrow> t @ concat (map (\<lambda>u. CHR 0x5C # u) ts))))
   \<and> (s = ''[20200101, 20200103]'' \<longrightarrow> xs = [SInt 20200101, SInt 20200103] \<longrightarrow>
        element_VR f = ''DA'' \<longrightarrow> n = 1 \<longrightarrow>
        gt (SInt 20200101) 1 ''%Y%m%d'' = Inr (SStr ''20200102'') \<longrightarrow>
        gt (SInt 20200103) 1 ''%Y%m%d'' = Inr (SStr ''20200104'') \<longrightarrow>
        fst (jitter_timestamp le gt f val) =
          Inr (Scalar (SStr (''20200102'' @ [CHR 0x5C] @ ''20200104''))))"
proof -
  have a: "jitter_timestamp le gt f val
             = jitter_timestamp le gt (f\<lparr>element_value := PyList xs\<rparr>) val"
    using assms by (simp add: jitter_timestamp_def unwrap_literal_def)
  have b: "fst (jitter_timestamp le gt f val) =
       Inr (Scalar (SStr (case map (\<lambda>x. py_str (spec_element gt (element_VR f) n x)) xs of
                            [] \<Rightarrow> []
                          | t # ts \<Rightarrow> t @ concat (map (\<lambda>u. CHR 0x5C # u) ts))))"
    using assms
    by (simp add: jitter_timestamp_def unwrap_literal_def jitter_multi_def jitter_loop_map
          jitter_element_spec case_prod_beta Let_def comp_def py_join_backslash)
  have c: "fst (jitter_timestamp le gt f val) =
          Inr (Scalar (SStr (''20200102'' @ [CHR 0x5C] @ ''20200104'')))"
    if "xs = [SInt 20200101, SInt 20200103]" "element_VR f = ''DA''" "n = 1"
      "gt (SInt 20200101) 1 ''%Y%m%d'' = Inr (SStr ''20200102'')"
      "gt (SInt 20200103) 1 ''%Y%m%d'' = Inr (SStr ''20200104'')"
    unfolding b using that
    by (simp add: spec_element_def spec_shift_one_def spec_candidates_def spec_first_match_def)
  from a b c show ?thesis by blast
qed

text \<open>
  The run of claim C6 on its example, with the shift primitive above and the table of
  \<^verbatim>\<open>ast.literal_eval\<close>.
\<close>

theorem C6_literal_list_witness:
  "fst (jitter_timestamp literal_eval_table shift
     \<lparr>name = ''AcquisitionDate'', element_VR = ''DA'',
      element_value = Scalar (SStr ''[20200101, 20200103]'')\<rparr> (OInt 1))
   = Inr (Scalar (SStr (''20200102'' @ [CHR 0x5C] @ ''20200104'')))"
proof -
  let ?f = "\<lparr>name = ''AcquisitionDate'', element_VR = ''DA'',
      element_value = Scalar (SStr ''[20200101, 20200103]'')\<rparr>"
  have a: "bracketed ''[20200101, 20200103]''"
    by (simp add: bracketed_def startswith_def endswith_def)
  have b: "literal_eval_table ''[20200101, 20200103]'' = Inr (PyList [SInt 20200101, SInt 20200103])"
    by (simp add: literal_eval_table_def)
  have e: "py_int (OInt 1) = Inr 1" by simp
  have p: "element_value ?f = Scalar (SStr ''[20200101, 20200103]'')" by simp
  have q: "element_VR ?f = ''DA''" by simp
  note h = C6_literal_list [of "OInt 1" 1 ?f "''[20200101, 20200103]''"
      literal_eval_table "[SInt 20200101, SInt 20200103]" shift, OF e p a b]
  show ?thesis
    using h [THEN conjunct2, THEN conjunct2, rule_format, OF refl refl q refl]
      shift_examples(7,8)
    by (simp add: fmt_date_def)
qed



text \<open>
  Claim C8 as stated fails when the primitive returns the empty string: line 236 logs the
  warning, and line 246 returns \<open>new_value\<close>, which is the empty string and not \<^verbatim>\<open>None\<close>.
\<close>

theorem C8_counterexample:
  "jitter_timestamp literal_eval_table empty_shift
     \<lparr>name = ''StudyDate'', element_VR = ''DA'', element_value = Scalar (SStr ''20200101'')\<rparr>
     (OInt 1)
   = (Inr (Scalar (SStr [])),
      [(WARNING, NotSupportedField ''StudyDate'' (SStr ''20200101'') ''DA''),
       (DEBUG, JitterReturning (Scalar (SStr [])) ''StudyDate'')])"
  by (simp add: jitter_timestamp_def unwrap_literal_def bracketed_def startswith_def
        jitter_single_def shift_by_vr_def empty_shift_def)

text \<open>
  Claim C8, amended: on the single-value branch the call returns \<open>v\<close>, the result of the
  first pattern the primitive accepts, or \<^verbatim>\<open>None\<close> when it accepts none. When \<open>v\<close> is
  falsy, the log holds exactly one entry that names the field as unsupported: a warning with
  the name of the field, the original value and the tag. When \<open>v\<close> is truthy it holds none.
  A falsy \<open>v\<close> is returned as it is: \<^verbatim>\<open>None\<close> after a failure, the empty string when the
  primitive returned the empty string.
\<close>

theorem C8_falsy_result:
  "py_int val = Inr n \<Longrightarrow> element_value f = Scalar x \<Longrightarrow> x \<noteq> SNone \<Longrightarrow>
   \<forall>s. x = SStr s \<longrightarrow> \<not> bracketed s \<Longrightarrow>
   v = (case spec_shift_one gt x n (element_VR f) of None \<Rightarrow> SNone | Some w \<Rightarrow> w) \<Longrightarrow>
   fst (jitter_timestamp le gt f val) = Inr (Scalar v)
   \<and> filter is_not_supported (snd (jitter_timestamp le gt f val)) =
       (if truthy v then [] else [(WARNING, NotSupportedField (name f) x (element_VR f))])"
  using shift_by_vr_spec [of gt "element_VR f" x n] shift_by_vr_log [of gt "element_VR f" x n]
  by (auto simp: jitter_timestamp_def unwrap_literal_plain jitter_single_def case_prod_beta
        Let_def split: sum.splits)

text \<open>
  The run of claim C8, amended, on a string that is no date, with the shift primitive above:
  the call returns \<^verbatim>\<open>None\<close> and logs the one warning.
\<close>

theorem C8_falsy_result_witness:
  "fst (jitter_timestamp literal_eval_table shift
     \<lparr>name = ''StudyDate'', element_VR = ''DA'', element_value = Scalar (SStr ''not-a-date'')\<rparr>
     (OInt 1)) = Inr (Scalar SNone)
   \<and> filter is_not_supported (snd (jitter_timestamp literal_eval_table shift
     \<lparr>name = ''StudyDate'', element_VR = ''DA'', element_value = Scalar (SStr ''not-a-date'')\<rparr>
     (OInt 1)))
     = [(WARNING, NotSupportedField ''StudyDate'' (SStr ''not-a-date'') ''DA'')]"
proof -
  let ?x = "SStr ''not-a-date''"
  let ?f = "\<lparr>name = ''StudyDate'', element_VR = ''DA'', element_value = Scalar ?x\<rparr>"
  have e: "py_int (OInt 1) = Inr 1" by simp
  have p: "element_value ?f = Scalar ?x" by simp
  have q: "?x \<noteq> SNone" by simp
  have d: "\<forall>s. ?x = SStr s \<longrightarrow> \<not> bracketed s"
    by (simp add: bracketed_def startswith_def)
  have v: "SNone = (case spec_shift_one shift ?x 1 (element_VR ?f) of None \<Rightarrow> SNone | Some w \<Rightarrow> w)"
    using shift_unparseable
    by (simp add: spec_shift_one_def spec_candidates_def spec_first_match_def fmt_date_def)
  show ?thesis
    using C8_falsy_result [of "OInt 1" 1 ?f ?x SNone shift literal_eval_table, OF e p q d v]
    by simp
qed

text \<open>
  Claim C9 against the source. When \<^verbatim>\<open>ast.literal_eval\<close> raises \<^verbatim>\<open>ValueError\<close> or
  \<^verbatim>\<open>SyntaxError\<close> on a bracketed string, the call logs a warning and goes on with the
  single-value branch on the string itself, brackets included. When it raises anything else,
  the handler of line 59 does not catch it: the call raises it and logs nothing, although the
  comment of line 60 says that a failure is treated as a single string value.
\<close>

theorem C9_literal_parse_failure:
  "py_int val = Inr n \<Longrightarrow> element_value f = Scalar (SStr s) \<Longrightarrow> bracketed s \<Longrightarrow>
   le s = Inl e \<Longrightarrow>
   (e = ValueError \<or> e = SyntaxError \<longrightarrow>
      jitter_timestamp le gt f val =
        (Inr (Scalar (fst (jitter_single gt (name f) (element_VR f) n (SStr s)))),
         (WARNING, FailedToParseList (name f) e)
         # snd (jitter_single gt (name f) (element_VR f) n (SStr s))
         @ [(DEBUG, JitterReturning
               (Scalar (fst (jitter_single gt (name f) (element_VR f) n (SStr s)))) (name f))]))
   \<and> (e \<noteq> ValueError \<and> e \<noteq> SyntaxError \<longrightarrow>
      jitter_timestamp le gt f val = (Inl e, []))"
  by (simp add: jitter_timestamp_def unwrap_literal_def case_prod_beta)

text \<open>
  The run of claim C9 on the string \<^verbatim>\<open>[{[]}]\<close>, for which \<^verbatim>\<open>ast.literal_eval\<close> raises
  \<^verbatim>\<open>TypeError\<close>: the call raises \<^verbatim>\<open>TypeError\<close>.
\<close>

theorem C9_literal_parse_failure_witness:
  "jitter_timestamp literal_eval_table shift
     \<lparr>name = ''AcquisitionDateTime'', element_VR = ''DT'',
      element_value = Scalar (SStr ''[{[]}]'')\<rparr> (OStr ''30'')
   = (Inl TypeError, [])"
proof -
  let ?f = "\<lparr>name = ''AcquisitionDateTime'', element_VR = ''DT'',
      element_value = Scalar (SStr ''[{[]}]'')\<rparr>"
  have e: "py_int (OStr ''30'') = Inr 30"
    by (simp add: int_str_def int_unsigned_def is_digit_def int_space_def digit_val_def)
  have p: "element_value ?f = Scalar (SStr ''[{[]}]'')" by simp
  have a: "bracketed ''[{[]}]''"
    by (simp add: bracketed_def startswith_def endswith_def)
  have b: "literal_eval_table ''[{[]}]'' = Inl TypeError"
    by (simp add: literal_eval_table_def)
  show ?thesis
    using C9_literal_parse_failure [of "OStr ''30''" 30 ?f "''[{[]}]''"
        literal_eval_table TypeError shift, OF e p a b]
    by simp
qed

text \<open>
  Claim C10 as stated fails in its last part: the float 2.0 is neither an integer nor a
  string, \<^verbatim>\<open>int(2.0)\<close> is 2, and the call returns as it does for the offset 2.
\<close>

theorem C10_counterexample:
  "jitter_timestamp literal_eval_table shift
     \<lparr>name = ''StudyDate'', element_VR = ''DA'', element_value = Scalar SNone\<rparr> (OFloat 2 0)
   = (Inr (Scalar SNone),
      [(DEBUG, SkippingJitter ''StudyDate''), (DEBUG, JitterReturning (Scalar SNone) ''StudyDate'')])
   \<and> jitter_timestamp literal_eval_table shift
     \<lparr>name = ''StudyDate'', element_VR = ''DA'', element_value = Scalar (SStr ''20200101'')\<rparr>
     (OFloat 2 0)
   = (Inr (Scalar (SStr ''20200103'')),
      [(DEBUG, JitterReturning (Scalar (SStr ''20200103'')) ''StudyDate'')])"
  using shift_two_days
  by (simp add: jitter_timestamp_def int_float_def unwrap_literal_def bracketed_def
        startswith_def jitter_single_def shift_by_vr_def Let_def)

text \<open>
  Claim C10, amended: an offset that \<^verbatim>\<open>int\<close> cannot convert makes the call raise the error
  of \<^verbatim>\<open>int\<close> before anything is read or logged; for the strings \<^verbatim>\<open>abc\<close> and \<^verbatim>\<open>1.5\<close>
  the error is \<^verbatim>\<open>ValueError\<close>. So a call that returns has an offset that \<^verbatim>\<open>int\<close>
  accepts, and the call is then the call at the converted integer. Such an offset need not
  be an integer or a string: the floats 2.0 and 1.5 are converted to 2 and to 1.
\<close>

theorem C10_offset_coercion:
  "(py_int val = Inl e \<longrightarrow> jitter_timestamp le gt f val = (Inl e, []))
   \<and> jitter_timestamp le gt f (OStr ''abc'') = (Inl ValueError, [])
   \<and> jitter_timestamp le gt f (OStr ''1.5'') = (Inl ValueError, [])
   \<and> ((\<exists>r. fst (jitter_timestamp le gt f val) = Inr r) \<longrightarrow> (\<exists>i. py_int val = Inr i))
   \<and> (py_int val = Inr n \<longrightarrow> jitter_timestamp le gt f val = jitter_timestamp le gt f (OInt n))
   \<and> jitter_timestamp le gt f (OFloat 2 0) = jitter_timestamp le gt f (OInt 2)
   \<and> jitter_timestamp le gt f (OFloat 3 (- 1)) = jitter_timestamp le gt f (OInt 1)"
proof -
  have a: "int_str ''abc'' = Inl ValueError" "int_str ''1.5'' = Inl ValueError"
    by (simp_all add: int_str_def int_unsigned_def is_digit_def int_space_def digit_val_def)
  have b: "py_int v = Inl x \<longrightarrow> jitter_timestamp le gt f v = (Inl x, [])" for v x
    by (simp add: jitter_timestamp_def)
  have c: "py_int v = Inr i \<longrightarrow> jitter_timestamp le gt f v = jitter_timestamp le gt f (OInt i)"
    for v i
    by (simp add: jitter_timestamp_def)
  have d: "\<exists>i. py_int val = Inr i" if "fst (jitter_timestamp le gt f val) = Inr r" for r
  proof (cases "py_int val")
    case (Inl x)
    with b [of val x] that show ?thesis by simp
  next
    case (Inr i)
    then show ?thesis by blast
  qed
  have g: "py_int (OFloat 2 0) = Inr 2" "py_int (OFloat 3 (- 1)) = Inr 1"
    by (simp_all add: int_float_def)
  show ?thesis
    using a b [of val e] b [of "OStr ''abc''" ValueError] b [of "OStr ''1.5''" ValueError]
      c [of val n] c [of "OFloat 2 0" 2] c [of "OFloat 3 (- 1)" 1] d g
    by auto
qed

text \<open>
  The run of claim C10, amended, on an offset that is a word, on \<^verbatim>\<open>None\<close>, and on a
  \<^verbatim>\<open>bytes\<close> that \<^verbatim>\<open>int\<close> accepts.
\<close>

theorem C10_offset_coercion_witness:
  "jitter_timestamp literal_eval_table shift
     \<lparr>name = ''StudyDate'', element_VR = ''DA'', element_value = Scalar (SStr ''20200101'')\<rparr>
     (OStr ''ten'') = (Inl ValueError, [])
   \<and> jitter_timestamp literal_eval_table shift
     \<lparr>name = ''StudyDate'', element_VR = ''DA'', element_value = Scalar (SStr ''20200101'')\<rparr>
     ONone = (Inl TypeError, [])
   \<and> jitter_timestamp literal_eval_table shift
     \<lparr>name = ''StudyDate'', element_VR = ''DA'', element_value = Scalar (SStr ''20200101'')\<rparr>
     (OBytes '' 2 '')
     = jitter_timestamp literal_eval_table shift
     \<lparr>name = ''StudyDate'', element_VR = ''DA'', element_value = Scalar (SStr ''20200101'')\<rparr>
     (OInt 2)"
proof -
  let ?f = "\<lparr>name = ''StudyDate'', element_VR = ''DA'', element_value = Scalar (SStr ''20200101'')\<rparr>"
  have a: "py_int (OStr ''ten'') = Inl ValueError"
    by (simp add: int_str_def int_unsigned_def is_digit_def int_space_def)
  have b: "py_int ONone = Inl TypeError" by simp
  have c: "py_int (OBytes '' 2 '') = Inr 2"
    by (simp add: int_bytes_def int_unsigned_def is_digit_def ascii_space_def digit_val_def)
  show ?thesis
    using C10_offset_coercion [of "OStr ''ten''" ValueError literal_eval_table shift ?f,
        THEN conjunct1, rule_format, OF a]
      C10_offset_coercion [of ONone TypeError literal_eval_table shift ?f,
        THEN conjunct1, rule_format, OF b]
      C10_offset_coercion [of "OBytes '' 2 ''" _ literal_eval_table shift ?f 2,
        THEN conjunct2, THEN conjunct2, THEN conjunct2, THEN conjunct2, THEN conjunct1,
        rule_format, OF c]
    by simp
qed

end
